theory Spec2Isabelle
  imports Main "HOL-Library.Word"
begin

section \<open>Path attributes and the UPDATE message (protocol/bgp-update-message.cc)\<close>

type_synonym u8 = "8 word"
type_synonym u16 = "16 word"
type_synonym u32 = "32 word"
type_synonym u64 = "64 word"

text \<open>
  The attribute classes are declared in headers that are not among the sources. An
  object of one of them is a value of \<open>BgpPathAttrib\<close> below: one constructor per
  class of the data model, with the members the code names (\<open>is_4b\<close>,
  \<open>as_paths\<close>, \<open>as4_paths\<close>, \<open>next_hop\<close>; \<open>type\<close> and \<open>value\<close> of a
  segment), and the type code fixed by the class. The header flags (optional,
  transitive, partial, extended) are read by none of the functions below and are left
  out.
\<close>

datatype BgpAsPathSegmentType = AS_SET | AS_SEQUENCE

datatype BgpAsPathSegment =
    BgpAsPathSegment2b BgpAsPathSegmentType "u16 list"
  | BgpAsPathSegment4b BgpAsPathSegmentType "u32 list"

fun seg_type :: "BgpAsPathSegment \<Rightarrow> BgpAsPathSegmentType" where
  "seg_type (BgpAsPathSegment2b t v) = t"
| "seg_type (BgpAsPathSegment4b t v) = t"

fun seg_size :: "BgpAsPathSegment \<Rightarrow> nat" where
  "seg_size (BgpAsPathSegment2b t v) = length v"
| "seg_size (BgpAsPathSegment4b t v) = length v"

text \<open>
  \<open>BgpPathAttribAsPath is_4b as_paths\<close>: the attribute's own \<open>is_4b\<close> field is
  separate from the \<open>is_4b\<close> of each of its segments.
\<close>

datatype BgpPathAttrib =
    BgpPathAttribOrigin u8
  | BgpPathAttribAsPath bool "BgpAsPathSegment list"
  | BgpPathAttribNexthop u32
  | BgpPathAttribMed u32
  | BgpPathAttribLocalPref u32
  | BgpPathAttribAtomicAggregate
  | BgpPathAttribAggregator u32 u32
  | BgpPathAttribCommunity "u32 list"
  | BgpPathAttribAs4Path "BgpAsPathSegment list"
  | BgpPathAttribAs4Aggregator u32 u32

definition ORIGIN :: u8 where "ORIGIN = 1"
definition AS_PATH :: u8 where "AS_PATH = 2"
definition NEXT_HOP :: u8 where "NEXT_HOP = 3"
definition MULTI_EXIT_DISC :: u8 where "MULTI_EXIT_DISC = 4"
definition LOCAL_PREF :: u8 where "LOCAL_PREF = 5"
definition ATOMIC_AGGREGATE :: u8 where "ATOMIC_AGGREGATE = 6"
definition AGGREGATOR :: u8 where "AGGREGATOR = 7"
definition COMMUNITY :: u8 where "COMMUNITY = 8"
definition AS4_PATH :: u8 where "AS4_PATH = 17"
definition AS4_AGGREGATOR :: u8 where "AS4_AGGREGATOR = 18"

fun type_code :: "BgpPathAttrib \<Rightarrow> u8" where
  "type_code (BgpPathAttribOrigin v) = ORIGIN"
| "type_code (BgpPathAttribAsPath b segs) = AS_PATH"
| "type_code (BgpPathAttribNexthop v) = NEXT_HOP"
| "type_code (BgpPathAttribMed v) = MULTI_EXIT_DISC"
| "type_code (BgpPathAttribLocalPref v) = LOCAL_PREF"
| "type_code BgpPathAttribAtomicAggregate = ATOMIC_AGGREGATE"
| "type_code (BgpPathAttribAggregator a v) = AGGREGATOR"
| "type_code (BgpPathAttribCommunity vs) = COMMUNITY"
| "type_code (BgpPathAttribAs4Path segs) = AS4_PATH"
| "type_code (BgpPathAttribAs4Aggregator a v) = AS4_AGGREGATOR"

text \<open>
  The message keeps its attributes by value, in a \<open>std::vector<BgpPathAttrib>\<close>:
  \<open>setAttribs\<close> assigns \<open>path_attribute\<close> from such a vector (line 42), the loops
  bind \<open>BgpPathAttrib &\<close> to its elements (lines 11, 19, 27), and \<open>push_back\<close>
  takes a \<open>const BgpPathAttrib &\<close> (line 37) or a local \<open>BgpPathAttribAsPath\<close>
  (lines 95, 117). An element is therefore an object of the base class itself: the copy
  of the \<open>BgpPathAttrib\<close> part of what was pushed, without the members of the derived
  class. \<open>BgpPathAttrib_base\<close> is such an element and \<open>slice\<close> is that copy.
\<close>

record BgpPathAttrib_base =
  base_type_code :: u8

definition slice :: "BgpPathAttrib \<Rightarrow> BgpPathAttrib_base" where
  "slice a = \<lparr>base_type_code = type_code a\<rparr>"

record BgpUpdateMessage =
  use_4b_asn :: bool
  path_attribute :: "BgpPathAttrib_base list"

text \<open>What a C++ \<open>throw\<close> leaves the caller with.\<close>

datatype exn = no_such_attribute | bad_cast

text \<open>\<open>getAttrib\<close>: the first element with the type code, or the throw.\<close>

fun getAttrib_loop :: "u8 \<Rightarrow> BgpPathAttrib_base list \<Rightarrow> exn + BgpPathAttrib_base" where
  "getAttrib_loop ty [] = Inl no_such_attribute"
| "getAttrib_loop ty (a # as) =
     (if base_type_code a = ty then Inr a else getAttrib_loop ty as)"

definition getAttrib :: "u8 \<Rightarrow> BgpUpdateMessage \<Rightarrow> exn + BgpPathAttrib_base" where
  "getAttrib ty m = getAttrib_loop ty (path_attribute m)"

fun hasAttrib_loop :: "u8 \<Rightarrow> BgpPathAttrib_base list \<Rightarrow> bool" where
  "hasAttrib_loop ty [] = False"
| "hasAttrib_loop ty (a # as) = (if base_type_code a = ty then True else hasAttrib_loop ty as)"

definition hasAttrib :: "u8 \<Rightarrow> BgpUpdateMessage \<Rightarrow> bool" where
  "hasAttrib ty m = hasAttrib_loop ty (path_attribute m)"

text \<open>
  \<open>addAttrib\<close>: the argument is a reference to an object of any attribute class;
  \<open>push_back\<close> stores its slice.
\<close>

definition addAttrib :: "BgpPathAttrib \<Rightarrow> BgpUpdateMessage \<Rightarrow> bool \<times> BgpUpdateMessage" where
  "addAttrib attrib m =
     (if hasAttrib (type_code attrib) m then (False, m)
      else (True, m\<lparr>path_attribute := path_attribute m @ [slice attrib]\<rparr>))"

text \<open>\<open>dropAttrib\<close> erases the first element with the type code.\<close>

fun dropAttrib_loop :: "u8 \<Rightarrow> BgpPathAttrib_base list \<Rightarrow> bool \<times> BgpPathAttrib_base list" where
  "dropAttrib_loop ty [] = (False, [])"
| "dropAttrib_loop ty (a # as) =
     (if base_type_code a = ty then (True, as)
      else (fst (dropAttrib_loop ty as), a # snd (dropAttrib_loop ty as)))"

definition dropAttrib :: "u8 \<Rightarrow> BgpUpdateMessage \<Rightarrow> bool \<times> BgpUpdateMessage" where
  "dropAttrib ty m =
     (fst (dropAttrib_loop ty (path_attribute m)),
      m\<lparr>path_attribute := snd (dropAttrib_loop ty (path_attribute m))\<rparr>)"

definition updateAttribute :: "BgpPathAttrib \<Rightarrow> BgpUpdateMessage \<Rightarrow> bool \<times> BgpUpdateMessage" where
  "updateAttribute attrib m = addAttrib attrib (snd (dropAttrib (type_code attrib) m))"

text \<open>
  \<open>dynamic_cast<BgpPathAttribAsPath &>(getAttrib(AS_PATH))\<close> and its siblings: when
  \<open>getAttrib\<close> throws, that is the throw; when it returns, it returns a reference to
  an element of the vector, whose class is \<open>BgpPathAttrib\<close> and no derived class, and
  the cast throws \<open>std::bad_cast\<close>. Either way control leaves the function there.
\<close>

definition dynamic_cast_throw :: "exn + BgpPathAttrib_base \<Rightarrow> exn" where
  "dynamic_cast_throw found = (case found of Inl e \<Rightarrow> e | Inr a \<Rightarrow> bad_cast)"

subsection \<open>The path operation the message code calls on a local object\<close>

text \<open>
  Modelled from the spec: \<open>BgpAsPathSegment2b::prepend\<close> and its 4-byte sibling are
  not among the sources. \<open>Prepending into a segment: if the leading segment is
  AS_SEQUENCE and its length < 255, push asn at the front\<close>: the segment operation
  pushes the ASN at the front of \<open>value\<close> and reports success; on a segment that
  already holds 255 ASNs it reports failure and leaves the segment as it is.
\<close>

fun BgpAsPathSegment_prepend :: "u32 \<Rightarrow> BgpAsPathSegment \<Rightarrow> bool \<times> BgpAsPathSegment" where
  "BgpAsPathSegment_prepend asn (BgpAsPathSegment2b t v) =
     (if length v < 255 then (True, BgpAsPathSegment2b t (ucast asn # v))
      else (False, BgpAsPathSegment2b t v))"
| "BgpAsPathSegment_prepend asn (BgpAsPathSegment4b t v) =
     (if length v < 255 then (True, BgpAsPathSegment4b t (asn # v))
      else (False, BgpAsPathSegment4b t v))"

definition new_sequence :: "bool \<Rightarrow> u32 \<Rightarrow> BgpAsPathSegment" where
  "new_sequence is_4b asn =
     (if is_4b then BgpAsPathSegment4b AS_SEQUENCE [asn]
      else BgpAsPathSegment2b AS_SEQUENCE [ucast asn])"

text \<open>
  Modelled from the spec: \<open>BgpPathAttribAsPath::prepend\<close> is not among the sources.
  \<open>if the leading segment is AS_SEQUENCE and its length < 255, push asn at the front;
  otherwise insert a new leading AS_SEQUENCE segment carrying asn\<close>. The spec names no
  failure, so the operation reports success.
\<close>

fun BgpPathAttribAsPath_prepend ::
  "u32 \<Rightarrow> bool \<Rightarrow> BgpAsPathSegment list \<Rightarrow> bool \<times> BgpAsPathSegment list" where
  "BgpPathAttribAsPath_prepend asn is_4b [] = (True, [new_sequence is_4b asn])"
| "BgpPathAttribAsPath_prepend asn is_4b (s # segs) =
     (if seg_type s = AS_SEQUENCE \<and> seg_size s < 255
      then (True, snd (BgpAsPathSegment_prepend asn s) # segs)
      else (True, new_sequence is_4b asn # s # segs))"

text \<open>
  The local object of lines 93 and 94, and of lines 115 and 116: constructed with
  \<open>is_4b\<close> and no segment, then \<open>prepend\<close> called on it.
\<close>

definition fresh_as_path :: "bool \<Rightarrow> u32 \<Rightarrow> BgpPathAttrib" where
  "fresh_as_path is_4b asn =
     BgpPathAttribAsPath is_4b (snd (BgpPathAttribAsPath_prepend asn is_4b []))"

subsection \<open>prepend\<close>

text \<open>
  The result of each function below is what the call does, the value returned or the
  exception thrown, beside the message as the call leaves it.

  Lines 82 to 106, the 4-byte mode. Line 95 pushes the local object, so its slice is
  stored. At line 99 the cast throws, and lines 100 to 106 are not reached.
\<close>

definition prepend_4b :: "u32 \<Rightarrow> BgpUpdateMessage \<Rightarrow> (exn + bool) \<times> BgpUpdateMessage" where
  "prepend_4b asn m =
     (if hasAttrib AS4_PATH m then (Inr False, m)
      else if \<not> hasAttrib AS_PATH m then
        (Inr True,
         m\<lparr>path_attribute := path_attribute m @ [slice (fresh_as_path (use_4b_asn m) asn)]\<rparr>)
      else (Inl (dynamic_cast_throw (getAttrib AS_PATH m)), m))"

definition prep_asn_of :: "u32 \<Rightarrow> u16" where
  "prep_asn_of asn = (if asn \<ge> 0xffff then 23456 else ucast asn)"

text \<open>
  Lines 108 to 133, the 2-byte mode. With an AS_PATH the cast of line 119 throws and
  lines 120 to 125 are not reached. Without one the slice of the local object is pushed
  (line 117) and control reaches line 128: with an AS4_PATH the cast of line 129 throws,
  after the push, and line 130 is not reached.
\<close>

definition prepend_2b :: "u32 \<Rightarrow> BgpUpdateMessage \<Rightarrow> (exn + bool) \<times> BgpUpdateMessage" where
  "prepend_2b asn m =
     (let prep_asn = prep_asn_of asn in
      if \<not> hasAttrib AS_PATH m then
        (let m1 = m\<lparr>path_attribute := path_attribute m @
                     [slice (fresh_as_path (use_4b_asn m) (ucast prep_asn))]\<rparr>
         in if hasAttrib AS4_PATH m1
            then (Inl (dynamic_cast_throw (getAttrib AS4_PATH m1)), m1)
            else (Inr True, m1))
      else (Inl (dynamic_cast_throw (getAttrib AS_PATH m)), m))"

definition prepend :: "u32 \<Rightarrow> BgpUpdateMessage \<Rightarrow> (exn + bool) \<times> BgpUpdateMessage" where
  "prepend asn m = (if use_4b_asn m then prepend_4b asn m else prepend_2b asn m)"

subsection \<open>restoreAsPath\<close>

text \<open>
  Lines 137 to 166. The cast of line 140 throws; \<open>is_4b\<close> is not read and lines 141 to
  165, with both calls of \<open>asPathSegsTo4b\<close>, are not reached.
\<close>

definition restoreAsPath :: "BgpUpdateMessage \<Rightarrow> (exn + bool) \<times> BgpUpdateMessage" where
  "restoreAsPath m =
     (if \<not> hasAttrib AS_PATH m then (Inr True, m)
      else (Inl (dynamic_cast_throw (getAttrib AS_PATH m)), m))"

subsection \<open>downgradeAsPath\<close>

text \<open>
  Lines 168 to 200. The cast of line 171 throws; the loops of lines 180 to 195 and the
  writes of lines 197 and 198 are not reached.
\<close>

definition downgradeAsPath :: "BgpUpdateMessage \<Rightarrow> (exn + bool) \<times> BgpUpdateMessage" where
  "downgradeAsPath m =
     (if \<not> hasAttrib AS_PATH m then (Inr True, m)
      else (Inl (dynamic_cast_throw (getAttrib AS_PATH m)), m))"

subsection \<open>Concrete messages\<close>

text \<open>
  The empty message of a mode, and the message that \<open>addAttrib\<close> makes of it for a
  list of attribute objects, added one after the other.
\<close>

definition empty_message :: "bool \<Rightarrow> BgpUpdateMessage" where
  "empty_message mode_4b = \<lparr>use_4b_asn = mode_4b, path_attribute = []\<rparr>"

fun add_all :: "BgpPathAttrib list \<Rightarrow> BgpUpdateMessage \<Rightarrow> BgpUpdateMessage" where
  "add_all [] m = m"
| "add_all (a # as) m = add_all as (snd (addAttrib a m))"

section \<open>The IPv4 routing information base (src/bgp-rib4.cc)\<close>

record Prefix4 =
  getPrefix :: u32
  getLength :: u8

datatype BgpRouteSource = SRC_EBGP | SRC_IBGP

text \<open>\<open>weight\<close> is an \<open>int32_t\<close>, kept as its 32 bits.\<close>

record BgpRib4Entry =
  route :: Prefix4
  src_router_id :: u32
  attribs :: "BgpPathAttrib list"
  update_id :: u64
  weight :: u32
  src :: BgpRouteSource
  ibgp_peer_asn :: u32

text \<open>
  The multimap \<open>rib\<close> is the list of its entries in iteration order, an iterator is a
  position in that list, and \<open>rib.end()\<close> is \<open>None\<close>. Every entry is stored under
  the key made from its own route (\<open>MAKE_ENTRY4\<close>), so \<open>equal_range\<close> of a
  route's key yields the entries of that route, each with its position. The key's
  one-argument constructor is not among the sources; each loop over an equal range
  checks \<open>it->second.route == route\<close> again, and so do the steps below.
\<close>

record BgpRib4 =
  rib :: "BgpRib4Entry list"
  rib_update_id :: u64

definition equal_range :: "Prefix4 \<Rightarrow> BgpRib4Entry list \<Rightarrow> (nat \<times> BgpRib4Entry) list" where
  "equal_range prefix entries = filter (\<lambda>(i, e). route e = prefix) (enumerate 0 entries)"

text \<open>
  Modelled from the spec: \<open>selectEntry\<close> is declared in bgp-rib.h, which is not among
  the sources; \<open>Given two candidate entries for the same prefix, prefer in
  order\<close>. It is the parameter \<open>selectEntry\<close> of the functions below:
  \<open>selectEntry a b\<close> holds when the call \<open>selectEntry(a, b)\<close> returns its first
  argument, and the call returns its second argument otherwise.
\<close>

type_synonym select = "BgpRib4Entry \<Rightarrow> BgpRib4Entry \<Rightarrow> bool"

text \<open>\<open>find_best\<close>, lines 60 to 78: one step of the loop, and the loop.\<close>

definition find_best_step ::
  "select \<Rightarrow> Prefix4 \<Rightarrow> nat \<times> BgpRib4Entry \<Rightarrow> BgpRib4Entry option \<Rightarrow> BgpRib4Entry option" where
  "find_best_step selectEntry prefix it best =
     (if route (snd it) = prefix then
        (case best of
           None \<Rightarrow> Some (snd it)
         | Some b \<Rightarrow> if selectEntry b (snd it) then Some b else Some (snd it))
      else best)"

definition find_best :: "select \<Rightarrow> Prefix4 \<Rightarrow> BgpRib4Entry list \<Rightarrow> BgpRib4Entry option" where
  "find_best selectEntry prefix entries =
     (let its = equal_range prefix entries in
      if its = [] then None
      else fold (find_best_step selectEntry prefix) its None)"

text \<open>
  \<open>rib.insert\<close>: the standard leaves open where the new element stands among the
  others; \<open>pos\<close> is that place. \<open>rib.erase(it)\<close> removes the element at a position.
\<close>

definition insert_at :: "nat \<Rightarrow> 'a \<Rightarrow> 'a list \<Rightarrow> 'a list" where
  "insert_at pos e xs = take pos xs @ e # drop pos xs"

definition erase :: "nat \<Rightarrow> 'a list \<Rightarrow> 'a list" where
  "erase i xs = take i xs @ drop (Suc i) xs"

text \<open>\<open>insertPriv\<close>, lines 105 to 173.\<close>

definition insertPriv ::
  "select \<Rightarrow> nat \<Rightarrow> u32 \<Rightarrow> Prefix4 \<Rightarrow> BgpPathAttrib list \<Rightarrow> u32 \<Rightarrow> u32 \<Rightarrow> BgpRib4 \<Rightarrow>
   BgpRib4 \<times> BgpRib4Entry option" where
  "insertPriv selectEntry pos src_id rt attrib wt ibgp_asn st =
     (let new_entry = \<lparr>route = rt, src_router_id = src_id, attribs = attrib,
                        update_id = rib_update_id st, weight = wt,
                        src = (if ibgp_asn > 0 then SRC_IBGP else SRC_EBGP),
                        ibgp_peer_asn = ibgp_asn\<rparr>
      in case find_best selectEntry rt (rib st) of
           Some best_before_insert \<Rightarrow>
             (let erased = filter (\<lambda>e. \<not> (route e = rt \<and> src_router_id e = src_id)) (rib st);
                  inserted = insert_at pos new_entry erased
              in case find_best selectEntry rt inserted of
                   None \<Rightarrow> (st\<lparr>rib := inserted\<rparr>, None)
                 | Some best_after_insert \<Rightarrow>
                     (st\<lparr>rib := inserted\<rparr>,
                      if update_id best_after_insert = update_id best_before_insert then None
                      else Some best_after_insert))
         | None \<Rightarrow> (st\<lparr>rib := insert_at pos new_entry (rib st)\<rparr>, Some new_entry))"

text \<open>The insert of a learned route, lines 285 to 288.\<close>

definition insert_learned ::
  "select \<Rightarrow> nat \<Rightarrow> u32 \<Rightarrow> Prefix4 \<Rightarrow> BgpPathAttrib list \<Rightarrow> u32 \<Rightarrow> u32 \<Rightarrow> BgpRib4 \<Rightarrow>
   BgpRib4 \<times> BgpRib4Entry option" where
  "insert_learned selectEntry pos src_id rt attrib wt ibgp_asn st =
     insertPriv selectEntry pos src_id rt attrib wt ibgp_asn
       (st\<lparr>rib_update_id := rib_update_id st + 1\<rparr>)"

text \<open>
  \<open>withdraw\<close>, lines 302 to 350. One step of the loop of lines 315 to 324 on
  \<open>(to_remove, replacement)\<close>, then the function. The result is the pair the function
  returns, \<open>(reachabled, replacement)\<close>, beside the new state.
\<close>

definition withdraw_step ::
  "select \<Rightarrow> u32 \<Rightarrow> Prefix4 \<Rightarrow> nat \<times> BgpRib4Entry \<Rightarrow>
   (nat \<times> BgpRib4Entry) option \<times> BgpRib4Entry option \<Rightarrow>
   (nat \<times> BgpRib4Entry) option \<times> BgpRib4Entry option" where
  "withdraw_step selectEntry src_id rt it acc =
     (if route (snd it) = rt then
        (if src_router_id (snd it) = src_id then (Some it, snd acc)
         else
           (case snd acc of
              None \<Rightarrow> (fst acc, Some (snd it))
            | Some replacement \<Rightarrow>
                (fst acc, Some (if selectEntry replacement (snd it) then replacement else snd it))))
      else acc)"

definition withdraw ::
  "select \<Rightarrow> u32 \<Rightarrow> Prefix4 \<Rightarrow> BgpRib4 \<Rightarrow> BgpRib4 \<times> (bool \<times> BgpRib4Entry option)" where
  "withdraw selectEntry src_id rt st =
     (let old_entries = equal_range rt (rib st) in
      if old_entries = [] then (st, (False, None))
      else
        (case fold (withdraw_step selectEntry src_id rt) old_entries (None, None) of
           (None, replacement) \<Rightarrow> (st, (False, None))
         | (Some to_remove, Some replacement) \<Rightarrow>
             (st\<lparr>rib := erase (fst to_remove) (rib st)\<rparr>,
              (True, if selectEntry replacement (snd to_remove) then None else Some replacement))
         | (Some to_remove, None) \<Rightarrow> (st, (False, None))))"

text \<open>
  \<open>discard\<close>, lines 361 to 380: the body is a comment. No statement runs, and the
  function ends without a \<open>return\<close>: \<open>None\<close> stands for the value it does not
  produce.
\<close>

definition discard ::
  "u32 \<Rightarrow> BgpRib4 \<Rightarrow> BgpRib4 \<times> (Prefix4 list \<times> BgpRib4Entry list) option" where
  "discard src_id st = (st, None)"

text \<open>
  The step of \<open>find_best\<close> reads the entry and not its position; \<open>best_of\<close> is
  that step on the entry alone.
\<close>

definition best_of ::
  "select \<Rightarrow> Prefix4 \<Rightarrow> BgpRib4Entry \<Rightarrow> BgpRib4Entry option \<Rightarrow> BgpRib4Entry option" where
  "best_of selectEntry prefix e best = find_best_step selectEntry prefix (0, e) best"

subsection \<open>Concrete inputs\<close>

text \<open>The prefix 10.0.0.0/8 and an entry for it from source \<open>s\<close> with update id \<open>uid\<close>.\<close>

definition route_a :: Prefix4 where
  "route_a = \<lparr>getPrefix = 0x0A000000, getLength = 8\<rparr>"

definition entry_a :: "u32 \<Rightarrow> u64 \<Rightarrow> BgpRib4Entry" where
  "entry_a s uid = \<lparr>route = route_a, src_router_id = s, attribs = [], update_id = uid,
                    weight = 0, src = SRC_EBGP, ibgp_peer_asn = 0\<rparr>"

text \<open>A \<open>selectEntry\<close> that returns its first argument, for evaluating at an input.\<close>

definition select_first :: select where
  "select_first a b = True"

section \<open>The attribute list\<close>

lemmas type_code_defs = ORIGIN_def AS_PATH_def NEXT_HOP_def MULTI_EXIT_DISC_def LOCAL_PREF_def
  ATOMIC_AGGREGATE_def AGGREGATOR_def COMMUNITY_def AS4_PATH_def AS4_AGGREGATOR_def

lemma hasAttrib_loop_iff: "hasAttrib_loop ty as \<longleftrightarrow> ty \<in> base_type_code ` set as"
  by (induction as) auto

lemma getAttrib_loop_found:
  "hasAttrib_loop ty as \<Longrightarrow> \<exists>a. getAttrib_loop ty as = Inr a"
  by (induction as) auto

text \<open>Where \<open>hasAttrib\<close> holds, the cast of what \<open>getAttrib\<close> returns throws \<open>bad_cast\<close>.\<close>

lemma dynamic_cast_throw_found:
  "hasAttrib ty m \<Longrightarrow> dynamic_cast_throw (getAttrib ty m) = bad_cast"
  using getAttrib_loop_found [of ty "path_attribute m"]
  by (auto simp: hasAttrib_def getAttrib_def dynamic_cast_throw_def)

text \<open>
  C10. \<open>addAttrib\<close> returns false and leaves the attribute list as it is when an
  attribute with the same type code is present; otherwise it appends the attribute, as
  the vector stores it, and returns true. Hence a list whose type codes are pairwise
  distinct stays so.
\<close>

theorem addAttrib_no_duplicate:
  "addAttrib a m =
     (if type_code a \<in> base_type_code ` set (path_attribute m) then (False, m)
      else (True, m\<lparr>path_attribute := path_attribute m @ [slice a]\<rparr>))
   \<and> (distinct (map base_type_code (path_attribute m)) \<longrightarrow>
        distinct (map base_type_code (path_attribute (snd (addAttrib a m)))))"
  by (auto simp: addAttrib_def hasAttrib_def hasAttrib_loop_iff slice_def)

theorem addAttrib_no_duplicate_witness:
  "addAttrib (BgpPathAttribNexthop 1)
      \<lparr>use_4b_asn = True, path_attribute = [slice (BgpPathAttribOrigin 0)]\<rparr>
     = (True, \<lparr>use_4b_asn = True,
               path_attribute = [slice (BgpPathAttribOrigin 0), slice (BgpPathAttribNexthop 1)]\<rparr>)
   \<and> distinct (map base_type_code [slice (BgpPathAttribOrigin 0)])
   \<and> distinct (map base_type_code [slice (BgpPathAttribOrigin 0), slice (BgpPathAttribNexthop 1)])
   \<and> addAttrib (BgpPathAttribOrigin 2)
      \<lparr>use_4b_asn = True, path_attribute = [slice (BgpPathAttribOrigin 0)]\<rparr>
     = (False, \<lparr>use_4b_asn = True, path_attribute = [slice (BgpPathAttribOrigin 0)]\<rparr>)"
  using addAttrib_no_duplicate [of "BgpPathAttribNexthop 1"
      "\<lparr>use_4b_asn = True, path_attribute = [slice (BgpPathAttribOrigin 0)]\<rparr>"]
    addAttrib_no_duplicate [of "BgpPathAttribOrigin 2"
      "\<lparr>use_4b_asn = True, path_attribute = [slice (BgpPathAttribOrigin 0)]\<rparr>"]
  by (simp add: slice_def ORIGIN_def NEXT_HOP_def)

section \<open>prepend\<close>

text \<open>
  In 4-byte mode \<open>prepend\<close> returns false on a message with an AS4_PATH, throws
  \<open>bad_cast\<close> on any other message with an AS_PATH, and on a message with neither
  returns true and stores an element with the type code of AS_PATH.
\<close>

lemma prepend_4b_mode_cases:
  assumes "use_4b_asn m"
  shows "prepend asn m =
     (if hasAttrib AS4_PATH m then (Inr False, m)
      else if hasAttrib AS_PATH m then (Inl bad_cast, m)
      else (Inr True, m\<lparr>path_attribute := path_attribute m @ [\<lparr>base_type_code = AS_PATH\<rparr>]\<rparr>))"
  using assms
  by (simp add: prepend_def prepend_4b_def dynamic_cast_throw_found slice_def fresh_as_path_def)

text \<open>
  C8. In 4-byte mode, \<open>prepend\<close> on the empty message returns true and leaves one
  element, the slice of the fresh AS_PATH: the segment holding the ASN is not kept. A
  second \<open>prepend\<close>, on that message, throws \<open>bad_cast\<close>, and so does \<open>prepend\<close> on
  the message to which a 2-byte AS_PATH was added: neither false nor success.
\<close>

theorem prepend_4b_mode_throws:
  "prepend 65001 (empty_message True)
     = (Inr True, \<lparr>use_4b_asn = True, path_attribute = [\<lparr>base_type_code = AS_PATH\<rparr>]\<rparr>)
   \<and> prepend 65002 \<lparr>use_4b_asn = True, path_attribute = [\<lparr>base_type_code = AS_PATH\<rparr>]\<rparr>
     = (Inl bad_cast, \<lparr>use_4b_asn = True, path_attribute = [\<lparr>base_type_code = AS_PATH\<rparr>]\<rparr>)
   \<and> prepend 65001
        (add_all [BgpPathAttribAsPath False [BgpAsPathSegment2b AS_SEQUENCE [100]]]
           (empty_message True))
     = (Inl bad_cast, \<lparr>use_4b_asn = True, path_attribute = [\<lparr>base_type_code = AS_PATH\<rparr>]\<rparr>)"
  by (simp add: prepend_def prepend_4b_def empty_message_def addAttrib_def hasAttrib_def
      getAttrib_def dynamic_cast_throw_def slice_def fresh_as_path_def type_code_defs)

text \<open>
  In 2-byte mode \<open>prepend\<close> throws \<open>bad_cast\<close> on a message with an AS_PATH; on a
  message without one it stores an element with the type code of AS_PATH, and then
  throws \<open>bad_cast\<close> if the message has an AS4_PATH and returns true if it has none.
\<close>

lemma prepend_2b_mode_cases:
  assumes "\<not> use_4b_asn m"
  shows "prepend asn m =
     (if hasAttrib AS_PATH m then (Inl bad_cast, m)
      else if hasAttrib AS4_PATH m
      then (Inl bad_cast,
            m\<lparr>path_attribute := path_attribute m @ [\<lparr>base_type_code = AS_PATH\<rparr>]\<rparr>)
      else (Inr True, m\<lparr>path_attribute := path_attribute m @ [\<lparr>base_type_code = AS_PATH\<rparr>]\<rparr>))"
proof -
  let ?m1 = "m\<lparr>path_attribute := path_attribute m @ [\<lparr>base_type_code = AS_PATH\<rparr>]\<rparr>"
  have 4: "hasAttrib AS4_PATH ?m1 = hasAttrib AS4_PATH m"
    by (simp add: hasAttrib_def hasAttrib_loop_iff type_code_defs)
  show ?thesis
    using assms 4 dynamic_cast_throw_found [of AS4_PATH ?m1]
    by (simp add: prepend_def prepend_2b_def Let_def dynamic_cast_throw_found slice_def
        fresh_as_path_def)
qed

text \<open>
  C4. In 2-byte mode, on the message to which the AS_PATH [23456, 100] and the AS4_PATH
  [70000, 100] were added, \<open>prepend 65536\<close> throws \<open>bad_cast\<close> and changes nothing:
  no ASN is put in front of either path. On the message to which only the AS4_PATH was
  added, it stores an AS_PATH element and then throws.
\<close>

theorem prepend_2b_mode_throws:
  "add_all [BgpPathAttribAsPath False [BgpAsPathSegment2b AS_SEQUENCE [23456, 100]],
            BgpPathAttribAs4Path [BgpAsPathSegment4b AS_SEQUENCE [70000, 100]]]
     (empty_message False)
     = \<lparr>use_4b_asn = False,
        path_attribute = [\<lparr>base_type_code = AS_PATH\<rparr>, \<lparr>base_type_code = AS4_PATH\<rparr>]\<rparr>
   \<and> prepend 65536
       \<lparr>use_4b_asn = False,
        path_attribute = [\<lparr>base_type_code = AS_PATH\<rparr>, \<lparr>base_type_code = AS4_PATH\<rparr>]\<rparr>
     = (Inl bad_cast,
        \<lparr>use_4b_asn = False,
         path_attribute = [\<lparr>base_type_code = AS_PATH\<rparr>, \<lparr>base_type_code = AS4_PATH\<rparr>]\<rparr>)
   \<and> prepend 65536
       (add_all [BgpPathAttribAs4Path [BgpAsPathSegment4b AS_SEQUENCE [70000, 100]]]
          (empty_message False))
     = (Inl bad_cast,
        \<lparr>use_4b_asn = False,
         path_attribute = [\<lparr>base_type_code = AS4_PATH\<rparr>, \<lparr>base_type_code = AS_PATH\<rparr>]\<rparr>)"
  by (simp add: prepend_def prepend_2b_def Let_def empty_message_def addAttrib_def
      hasAttrib_def getAttrib_def dynamic_cast_throw_def slice_def fresh_as_path_def
      type_code_defs)

section \<open>downgradeAsPath and restoreAsPath\<close>

text \<open>On every message with an AS_PATH both functions throw \<open>bad_cast\<close>.\<close>

lemma downgradeAsPath_with_AS_PATH:
  "hasAttrib AS_PATH m \<Longrightarrow> downgradeAsPath m = (Inl bad_cast, m)"
  by (simp add: downgradeAsPath_def dynamic_cast_throw_found)

lemma restoreAsPath_with_AS_PATH:
  "hasAttrib AS_PATH m \<Longrightarrow> restoreAsPath m = (Inl bad_cast, m)"
  by (simp add: restoreAsPath_def dynamic_cast_throw_found)

text \<open>
  C5. The 4-byte message to which the AS_PATH [65536, 65537] was added holds one
  element, with the type code of AS_PATH. \<open>downgradeAsPath\<close> on it throws
  \<open>bad_cast\<close> and leaves it as it is: no 2-byte segment is built and no AS4_PATH is
  installed.
\<close>

theorem downgradeAsPath_throws:
  "add_all [BgpPathAttribAsPath True [BgpAsPathSegment4b AS_SEQUENCE [65536, 65537]]]
     (empty_message True)
     = \<lparr>use_4b_asn = True, path_attribute = [\<lparr>base_type_code = AS_PATH\<rparr>]\<rparr>
   \<and> downgradeAsPath \<lparr>use_4b_asn = True, path_attribute = [\<lparr>base_type_code = AS_PATH\<rparr>]\<rparr>
     = (Inl bad_cast, \<lparr>use_4b_asn = True, path_attribute = [\<lparr>base_type_code = AS_PATH\<rparr>]\<rparr>)
   \<and> \<not> hasAttrib AS4_PATH
         (snd (downgradeAsPath
            \<lparr>use_4b_asn = True, path_attribute = [\<lparr>base_type_code = AS_PATH\<rparr>]\<rparr>))"
  by (simp add: downgradeAsPath_def empty_message_def addAttrib_def hasAttrib_def
      getAttrib_def dynamic_cast_throw_def slice_def type_code_defs)

text \<open>
  C6. On the 4-byte message to which the AS_PATH [100, 200] was added,
  \<open>downgradeAsPath\<close> throws \<open>bad_cast\<close>, and \<open>restoreAsPath\<close> on the message it
  leaves throws \<open>bad_cast\<close> as well: neither returns, and the message holds the slice
  of the AS_PATH before and after.
\<close>

theorem downgrade_restore_throw:
  "downgradeAsPath
     (add_all [BgpPathAttribAsPath True [BgpAsPathSegment4b AS_SEQUENCE [100, 200]]]
        (empty_message True))
     = (Inl bad_cast, \<lparr>use_4b_asn = True, path_attribute = [\<lparr>base_type_code = AS_PATH\<rparr>]\<rparr>)
   \<and> restoreAsPath
       (snd (downgradeAsPath
          (add_all [BgpPathAttribAsPath True [BgpAsPathSegment4b AS_SEQUENCE [100, 200]]]
             (empty_message True))))
     = (Inl bad_cast, \<lparr>use_4b_asn = True, path_attribute = [\<lparr>base_type_code = AS_PATH\<rparr>]\<rparr>)"
  by (simp add: downgradeAsPath_def restoreAsPath_def empty_message_def addAttrib_def
      hasAttrib_def getAttrib_def dynamic_cast_throw_def slice_def type_code_defs)

text \<open>
  C7. On the message to which the 2-byte AS_PATH [100, 23456] and the AS4_PATH [65536]
  were added, \<open>restoreAsPath\<close> throws \<open>bad_cast\<close> and leaves the message as it is:
  no ASN is collected and no placeholder is replaced.
\<close>

theorem restoreAsPath_throws:
  "restoreAsPath
     (add_all [BgpPathAttribAsPath False [BgpAsPathSegment2b AS_SEQUENCE [100, 23456]],
               BgpPathAttribAs4Path [BgpAsPathSegment4b AS_SEQUENCE [65536]]]
        (empty_message True))
     = (Inl bad_cast,
        \<lparr>use_4b_asn = True,
         path_attribute = [\<lparr>base_type_code = AS_PATH\<rparr>, \<lparr>base_type_code = AS4_PATH\<rparr>]\<rparr>)"
  by (simp add: restoreAsPath_def empty_message_def addAttrib_def hasAttrib_def
      getAttrib_def dynamic_cast_throw_def slice_def type_code_defs)

section \<open>The loops of the RIB\<close>

lemma fold_filter_skip:
  "(\<And>x acc. \<not> P x \<Longrightarrow> f x acc = acc) \<Longrightarrow> fold f (filter P xs) acc = fold f xs acc"
  by (induction xs arbitrary: acc) auto

lemma snd_set_enumerate: "snd ` set (enumerate n xs) = set xs"
  by (metis list.set_map map_snd_enumerate)

lemma equal_range_Nil: "equal_range p es = [] \<longleftrightarrow> (\<forall>e\<in>set es. route e \<noteq> p)"
  unfolding equal_range_def filter_empty_conv
  using snd_set_enumerate [of 0 es] by force

lemma erase_middle: "erase (length xs) (xs @ x # ys) = xs @ ys"
  by (simp add: erase_def)

subsection \<open>find_best\<close>

lemma find_best_entries: "find_best sel p es = fold (best_of sel p) es None"
proof -
  have "find_best sel p es = fold (find_best_step sel p) (equal_range p es) None"
    by (cases "equal_range p es") (simp_all add: find_best_def)
  also have "\<dots> = fold (find_best_step sel p) (enumerate 0 es) None"
    unfolding equal_range_def
    by (rule fold_filter_skip) (auto simp: find_best_step_def)
  also have "find_best_step sel p = best_of sel p \<circ> snd"
    by (auto simp: fun_eq_iff best_of_def find_best_step_def split: option.splits)
  also have "fold (best_of sel p \<circ> snd) (enumerate 0 es) None
      = fold (best_of sel p) (map snd (enumerate 0 es)) None"
    by (simp only: fold_map)
  finally show ?thesis by simp
qed

lemma fold_best_of_skip:
  "\<forall>y\<in>set ys. route y \<noteq> p \<Longrightarrow> fold (best_of sel p) ys acc = acc"
  by (induction ys arbitrary: acc) (auto simp: best_of_def find_best_step_def)

lemma fold_best_of_None:
  "fold (best_of sel p) es acc = None \<longleftrightarrow> acc = None \<and> (\<forall>e\<in>set es. route e \<noteq> p)"
  by (induction es arbitrary: acc)
    (auto simp: best_of_def find_best_step_def split: option.splits)

lemma find_best_None: "find_best sel p es = None \<longleftrightarrow> (\<forall>e\<in>set es. route e \<noteq> p)"
  by (simp add: find_best_entries fold_best_of_None)

lemma find_best_only:
  "route e = p \<Longrightarrow> \<forall>y\<in>set xs. route y \<noteq> p \<Longrightarrow> \<forall>y\<in>set ys. route y \<noteq> p \<Longrightarrow>
   find_best sel p (xs @ e # ys) = Some e"
  by (simp add: find_best_entries fold_best_of_skip) (simp add: best_of_def find_best_step_def)

lemma find_best_one: "route e = p \<Longrightarrow> find_best sel p [e] = Some e"
  by (simp add: find_best_entries best_of_def find_best_step_def)

lemma find_best_two:
  "route e1 = p \<Longrightarrow> route e2 = p \<Longrightarrow>
   find_best sel p [e1, e2] = (if sel e1 e2 then Some e1 else Some e2)"
  by (simp add: find_best_entries best_of_def find_best_step_def)

lemma find_best_insert_at:
  "route e = p \<Longrightarrow> find_best sel p (insert_at pos e es) \<noteq> None"
  by (simp add: find_best_None insert_at_def)

subsection \<open>The loop of withdraw\<close>

lemma withdraw_fold_enumerate:
  "fold (withdraw_step sel s p) (equal_range p es) acc
     = fold (withdraw_step sel s p) (enumerate 0 es) acc"
  unfolding equal_range_def
  by (rule fold_filter_skip) (auto simp: withdraw_step_def)

lemma withdraw_fold_fst_skip:
  "\<forall>y\<in>set ys. \<not> (route y = p \<and> src_router_id y = s) \<Longrightarrow>
   fst (fold (withdraw_step sel s p) (enumerate k ys) acc) = fst acc"
  by (induction ys arbitrary: k acc) (auto simp: withdraw_step_def split: option.splits)

text \<open>\<open>to_remove\<close> ends at the last entry of the route from the source.\<close>

lemma withdraw_fold_fst:
  assumes "route x = p" "src_router_id x = s"
    and "\<forall>y\<in>set ys. \<not> (route y = p \<and> src_router_id y = s)"
  shows "fst (fold (withdraw_step sel s p) (enumerate n (xs @ x # ys)) acc)
           = Some (n + length xs, x)"
  using assms
  by (simp add: enumerate_append_eq withdraw_fold_fst_skip) (simp add: withdraw_step_def)

text \<open>\<open>replacement\<close> stays NULL exactly when no other source has the route.\<close>

lemma withdraw_fold_snd:
  "snd (fold (withdraw_step sel s p) its acc) = None \<longleftrightarrow>
     snd acc = None \<and> (\<forall>it\<in>set its. \<not> (route (snd it) = p \<and> src_router_id (snd it) \<noteq> s))"
  by (induction its arbitrary: acc) (auto simp: withdraw_step_def split: option.splits)

lemma withdraw_erases:
  assumes rib: "rib st = xs @ x # ys"
    and x: "route x = p" "src_router_id x = s"
    and ys: "\<forall>y\<in>set ys. \<not> (route y = p \<and> src_router_id y = s)"
    and other: "\<exists>e\<in>set (xs @ ys). route e = p \<and> src_router_id e \<noteq> s"
  shows "\<exists>r. withdraw sel s p st
           = (st\<lparr>rib := xs @ ys\<rparr>, (True, if sel r x then None else Some r))"
proof -
  let ?f = "fold (withdraw_step sel s p) (enumerate 0 (rib st)) (None, None)"
  have ne: "equal_range p (rib st) \<noteq> []"
    using rib x by (auto simp: equal_range_Nil)
  have f1: "fst ?f = Some (length xs, x)"
    using withdraw_fold_fst [OF x ys, of sel 0 xs "(None, None)"] rib by simp
  have "snd ?f \<noteq> None"
    using other rib snd_set_enumerate [of 0 "rib st"]
    by (auto simp: withdraw_fold_snd) force+
  then obtain r where f2: "snd ?f = Some r" by blast
  have "?f = (Some (length xs, x), Some r)"
    using f1 f2 by (simp add: prod_eq_iff)
  then have "withdraw sel s p st
      = (st\<lparr>rib := xs @ ys\<rparr>, (True, if sel r x then None else Some r))"
    using ne rib by (simp add: withdraw_def Let_def withdraw_fold_enumerate erase_middle)
  then show ?thesis ..
qed

lemma withdraw_sole:
  assumes "\<exists>e\<in>set (rib st). route e = p \<and> src_router_id e = s"
    and "\<forall>e\<in>set (rib st). route e = p \<longrightarrow> src_router_id e = s"
  shows "withdraw sel s p st = (st, (False, None))"
proof -
  let ?f = "fold (withdraw_step sel s p) (enumerate 0 (rib st)) (None, None)"
  have "snd ?f = None"
    using assms(2) snd_set_enumerate [of 0 "rib st"]
    by (auto simp: withdraw_fold_snd)
  then show ?thesis
    by (cases ?f)
      (auto simp: withdraw_def Let_def withdraw_fold_enumerate split: option.splits)
qed

section \<open>withdraw\<close>

text \<open>
  C1 as stated fails where the entry is the only one for its prefix: the RIB holds one
  entry for 10.0.0.0/8, from source 1, and \<open>withdraw\<close> for that source and prefix
  returns \<open>(false, NULL)\<close>, not true in the first place, and the state it leaves is
  the state it found.
\<close>

theorem withdraw_sole_entry_counterexample:
  "\<forall>sel. withdraw sel 1 route_a \<lparr>rib = [entry_a 1 1], rib_update_id = 1\<rparr>
     = (\<lparr>rib = [entry_a 1 1], rib_update_id = 1\<rparr>, (False, None))"
  by (simp add: withdraw_def equal_range_def withdraw_step_def entry_a_def Let_def
      enumerate_eq_zip)

text \<open>
  C1, amended. Let the RIB hold an entry with prefix \<open>p\<close> and source \<open>s\<close>. When
  another source has an entry for \<open>p\<close>, \<open>withdraw\<close> erases the last entry of
  \<open>p\<close> from \<open>s\<close>, keeps every other entry in its place, and returns true in the
  first place. When no other source has one, it returns \<open>(false, NULL)\<close>: the first
  component says whether the prefix is still reachable.
\<close>

theorem withdraw_removes_entry:
  assumes "\<exists>e\<in>set (rib st). route e = p \<and> src_router_id e = s"
  shows "if \<exists>e\<in>set (rib st). route e = p \<and> src_router_id e \<noteq> s
         then (\<exists>xs x ys. rib st = xs @ x # ys \<and> route x = p \<and> src_router_id x = s
                 \<and> (\<forall>y\<in>set ys. \<not> (route y = p \<and> src_router_id y = s))
                 \<and> fst (withdraw sel s p st) = st\<lparr>rib := xs @ ys\<rparr>)
              \<and> fst (snd (withdraw sel s p st)) = True
         else snd (withdraw sel s p st) = (False, None)"
proof (cases "\<exists>e\<in>set (rib st). route e = p \<and> src_router_id e \<noteq> s")
  case True
  from split_list_last_prop [OF assms]
  obtain xs x ys where sp: "rib st = xs @ x # ys" "route x = p" "src_router_id x = s"
    "\<forall>y\<in>set ys. \<not> (route y = p \<and> src_router_id y = s)"
    by blast
  have "\<exists>e\<in>set (xs @ ys). route e = p \<and> src_router_id e \<noteq> s"
    using True sp by auto
  from withdraw_erases [OF sp this, of sel]
  obtain r where "withdraw sel s p st
      = (st\<lparr>rib := xs @ ys\<rparr>, (True, if sel r x then None else Some r))" ..
  with sp True show ?thesis by auto
next
  case False
  with withdraw_sole [OF assms, of sel] show ?thesis by auto
qed

theorem withdraw_removes_entry_witness:
  "(\<exists>e\<in>set (rib \<lparr>rib = [entry_a 1 1, entry_a 2 2], rib_update_id = 2\<rparr>).
       route e = route_a \<and> src_router_id e = 1)
   \<and> withdraw select_first 1 route_a \<lparr>rib = [entry_a 1 1, entry_a 2 2], rib_update_id = 2\<rparr>
     = (\<lparr>rib = [entry_a 2 2], rib_update_id = 2\<rparr>, (True, None))
   \<and> (\<exists>e\<in>set (rib \<lparr>rib = [entry_a 1 1], rib_update_id = 1\<rparr>).
       route e = route_a \<and> src_router_id e = 1)
   \<and> snd (withdraw select_first 1 route_a \<lparr>rib = [entry_a 1 1], rib_update_id = 1\<rparr>)
     = (False, None)"
  using withdraw_removes_entry [of "\<lparr>rib = [entry_a 1 1, entry_a 2 2], rib_update_id = 2\<rparr>"
      route_a 1 select_first]
    withdraw_removes_entry [of "\<lparr>rib = [entry_a 1 1], rib_update_id = 1\<rparr>"
      route_a 1 select_first]
  by (simp add: withdraw_def equal_range_def withdraw_step_def entry_a_def Let_def
      enumerate_eq_zip erase_def select_first_def)

section \<open>insert\<close>

lemma insertPriv_rib:
  "rib (fst (insertPriv sel pos s p a w asn st))
     = insert_at pos \<lparr>route = p, src_router_id = s, attribs = a,
                        update_id = rib_update_id st, weight = w,
                        src = (if asn > 0 then SRC_IBGP else SRC_EBGP),
                        ibgp_peer_asn = asn\<rparr>
         (if find_best sel p (rib st) = None then rib st
          else filter (\<lambda>e. \<not> (route e = p \<and> src_router_id e = s)) (rib st))"
  by (auto simp: insertPriv_def Let_def split: option.splits)

text \<open>
  C2. The insert of a learned route returns the best entry of the prefix after the
  insert when there was no best entry before, or when the update id of the best entry
  after the insert differs from that of the best entry before; otherwise it returns
  NULL. After the insert the prefix has a best entry.
\<close>

theorem insert_returns_new_best:
  "snd (insert_learned sel pos s p a w asn st)
     = (if find_best sel p (rib st) = None
           \<or> map_option update_id
                (find_best sel p (rib (fst (insert_learned sel pos s p a w asn st))))
               \<noteq> map_option update_id (find_best sel p (rib st))
        then find_best sel p (rib (fst (insert_learned sel pos s p a w asn st)))
        else None)
   \<and> find_best sel p (rib (fst (insert_learned sel pos s p a w asn st))) \<noteq> None"
proof (cases "find_best sel p (rib st)")
  case None
  then have no: "\<forall>e\<in>set (rib st). route e \<noteq> p"
    by (simp add: find_best_None)
  have "find_best sel p (insert_at pos e (rib st)) = Some e" if "route e = p" for e
    unfolding insert_at_def using that no
    by (intro find_best_only) (auto dest: in_set_takeD in_set_dropD)
  with None show ?thesis
    by (simp add: insert_learned_def insertPriv_def Let_def)
next
  case (Some b)
  let ?new = "\<lparr>route = p, src_router_id = s, attribs = a,
                        update_id = rib_update_id st + 1, weight = w,
                        src = (if asn > 0 then SRC_IBGP else SRC_EBGP),
                        ibgp_peer_asn = asn\<rparr>"
  let ?ins = "insert_at pos ?new
                (filter (\<lambda>e. \<not> (route e = p \<and> src_router_id e = s)) (rib st))"
  have "find_best sel p ?ins \<noteq> None"
    by (rule find_best_insert_at) simp
  then obtain b' where "find_best sel p ?ins = Some b'" by blast
  with Some show ?thesis
    by (simp add: insert_learned_def insertPriv_def Let_def)
qed

section \<open>insert, then withdraw\<close>

text \<open>
  When another source has the prefix, the insert from \<open>x\<close> followed by the withdraw
  from \<open>x\<close> leaves the entries that were there, without those of the prefix from
  \<open>x\<close>.
\<close>

lemma insert_withdraw_rib:
  assumes other: "\<exists>e\<in>set (rib st). route e = p \<and> src_router_id e \<noteq> x"
  shows "rib (fst (withdraw sel x p (fst (insert_learned sel pos x p a w asn st))))
           = filter (\<lambda>e. \<not> (route e = p \<and> src_router_id e = x)) (rib st)"
proof -
  let ?st1 = "fst (insert_learned sel pos x p a w asn st)"
  let ?new = "\<lparr>route = p, src_router_id = x, attribs = a,
                        update_id = rib_update_id st + 1, weight = w,
                        src = (if asn > 0 then SRC_IBGP else SRC_EBGP),
                        ibgp_peer_asn = asn\<rparr>"
  let ?er = "filter (\<lambda>e. \<not> (route e = p \<and> src_router_id e = x)) (rib st)"
  have "find_best sel p (rib st) \<noteq> None"
    using other by (auto simp: find_best_None)
  then obtain b where "find_best sel p (rib st) = Some b"
    by blast
  then have r1: "rib ?st1 = take pos ?er @ ?new # drop pos ?er"
    by (simp add: insert_learned_def insertPriv_rib insert_at_def)
  have ys: "\<forall>y\<in>set (drop pos ?er). \<not> (route y = p \<and> src_router_id y = x)"
    by (auto dest: in_set_dropD)
  have other': "\<exists>e\<in>set (take pos ?er @ drop pos ?er). route e = p \<and> src_router_id e \<noteq> x"
    using other by auto
  from withdraw_erases [OF r1 _ _ ys other', of sel]
  obtain r where "withdraw sel x p ?st1
      = (?st1\<lparr>rib := take pos ?er @ drop pos ?er\<rparr>,
         (True, if sel r ?new then None else Some r))"
    by auto
  then show ?thesis by simp
qed

text \<open>
  C3 as stated fails where the source already has an entry for the prefix: the insert
  replaces it and the withdraw takes the replacement away. The RIB holds two entries for
  10.0.0.0/8, from sources 1 and 2. Whichever of the two \<open>selectEntry\<close> prefers, and
  wherever the multimap puts a new element, an insert and a withdraw from the source of
  the preferred entry leave the other entry as the best one.
\<close>

theorem insert_withdraw_counterexample:
  "\<forall>sel pos. \<exists>x.
     find_best sel route_a
       (rib (fst (withdraw sel x route_a
          (fst (insert_learned sel pos x route_a [] 0 0
             \<lparr>rib = [entry_a 1 1, entry_a 2 2], rib_update_id = 2\<rparr>)))))
     \<noteq> find_best sel route_a [entry_a 1 1, entry_a 2 2]"
proof (intro allI)
  fix sel pos
  let ?st = "\<lparr>rib = [entry_a 1 1, entry_a 2 2], rib_update_id = 2\<rparr>"
  have r: "route (entry_a s u) = route_a" "src_router_id (entry_a s u) = s" for s u
    by (simp_all add: entry_a_def)
  have a1: "rib (fst (withdraw sel 1 route_a (fst (insert_learned sel pos 1 route_a [] 0 0 ?st))))
      = [entry_a 2 2]"
    by (subst insert_withdraw_rib) (simp_all add: r)
  have a2: "rib (fst (withdraw sel 2 route_a (fst (insert_learned sel pos 2 route_a [] 0 0 ?st))))
      = [entry_a 1 1]"
    by (subst insert_withdraw_rib) (simp_all add: r)
  have ne: "entry_a 1 1 \<noteq> entry_a 2 2"
    by (simp add: entry_a_def)
  show "\<exists>x. find_best sel route_a
       (rib (fst (withdraw sel x route_a (fst (insert_learned sel pos x route_a [] 0 0 ?st)))))
     \<noteq> find_best sel route_a [entry_a 1 1, entry_a 2 2]"
  proof (cases "sel (entry_a 1 1) (entry_a 2 2)")
    case True
    then show ?thesis
      using ne by (intro exI [of _ 1]) (simp add: a1 find_best_two find_best_one r)
  next
    case False
    then show ?thesis
      using ne by (intro exI [of _ 2]) (simp add: a2 find_best_two find_best_one r)
  qed
qed

text \<open>
  C3, amended. Let another source have an entry for the prefix of the route. Then the
  insert from \<open>x\<close> followed by the withdraw from \<open>x\<close> leaves the entries that were
  there before the insert, without those of the prefix from \<open>x\<close>; so when \<open>x\<close>
  had no entry for the prefix before the insert, the RIB is what it was, and the best
  entry of the prefix is what it was.
\<close>

theorem insert_withdraw_restores:
  assumes "\<exists>e\<in>set (rib st). route e = p \<and> src_router_id e \<noteq> x"
  shows "rib (fst (withdraw sel x p (fst (insert_learned sel pos x p a w asn st))))
           = filter (\<lambda>e. \<not> (route e = p \<and> src_router_id e = x)) (rib st)
       \<and> ((\<forall>e\<in>set (rib st). \<not> (route e = p \<and> src_router_id e = x)) \<longrightarrow>
            rib (fst (withdraw sel x p (fst (insert_learned sel pos x p a w asn st)))) = rib st
          \<and> find_best sel p
               (rib (fst (withdraw sel x p (fst (insert_learned sel pos x p a w asn st)))))
              = find_best sel p (rib st))"
proof -
  have "filter (\<lambda>e. \<not> (route e = p \<and> src_router_id e = x)) (rib st) = rib st"
    if "\<forall>e\<in>set (rib st). \<not> (route e = p \<and> src_router_id e = x)"
    using that by (simp add: filter_id_conv)
  then show ?thesis
    unfolding insert_withdraw_rib [OF assms] by simp
qed

theorem insert_withdraw_restores_witness:
  "(\<exists>e\<in>set (rib \<lparr>rib = [entry_a 1 1, entry_a 2 2], rib_update_id = 2\<rparr>).
       route e = route_a \<and> src_router_id e \<noteq> 3)
   \<and> rib (fst (withdraw select_first 3 route_a
        (fst (insert_learned select_first 0 3 route_a [] 0 0
           \<lparr>rib = [entry_a 1 1, entry_a 2 2], rib_update_id = 2\<rparr>))))
     = [entry_a 1 1, entry_a 2 2]
   \<and> find_best select_first route_a
       (rib (fst (withdraw select_first 3 route_a
          (fst (insert_learned select_first 0 3 route_a [] 0 0
             \<lparr>rib = [entry_a 1 1, entry_a 2 2], rib_update_id = 2\<rparr>)))))
     = find_best select_first route_a [entry_a 1 1, entry_a 2 2]"
proof -
  have h: "\<exists>e\<in>set (rib \<lparr>rib = [entry_a 1 1, entry_a 2 2], rib_update_id = 2\<rparr>).
       route e = route_a \<and> src_router_id e \<noteq> 3"
    by (simp add: entry_a_def)
  have f: "\<forall>e\<in>set (rib \<lparr>rib = [entry_a 1 1, entry_a 2 2], rib_update_id = 2\<rparr>).
       \<not> (route e = route_a \<and> src_router_id e = 3)"
    by (simp add: entry_a_def)
  from insert_withdraw_restores [OF h, of select_first 0 "[]" 0 0] f h
  show ?thesis by simp
qed

section \<open>discard\<close>

text \<open>
  C9. \<open>discard\<close> for source 1 on a RIB whose one entry is from source 1 leaves the
  entry where it is and produces no value.
\<close>

theorem discard_removes_nothing:
  "discard 1 \<lparr>rib = [entry_a 1 1], rib_update_id = 1\<rparr>
     = (\<lparr>rib = [entry_a 1 1], rib_update_id = 1\<rparr>, None)
   \<and> src_router_id (entry_a 1 1) = 1"
  by (simp add: discard_def entry_a_def)

end
